theory Spec2Isabelle
  imports Main "HOL-Library.Word"
begin

section \<open>Run-time failures and outcomes\<close>

text \<open>
  A Go function either returns, panics, or blocks for ever. A returned \<open>error\<close> value is
  an ordinary result: \<open>string option\<close>, where \<open>None\<close> is \<open>nil\<close> and \<open>Some msg\<close> carries
  the text of the error.
\<close>

datatype panic =
    NilDereference
  | IndexOutOfRange
  | SliceBoundsOutOfRange
  | NegativeWaitGroupCounter
  | CloseOfClosedChannel

datatype 'a outcome = Ret 'a | Panics panic | Blocks

definition bind :: "'a outcome \<Rightarrow> ('a \<Rightarrow> 'b outcome) \<Rightarrow> 'b outcome" where
  "bind m f = (case m of Ret x \<Rightarrow> f x | Panics e \<Rightarrow> Panics e | Blocks \<Rightarrow> Blocks)"

text \<open>\<open>sync.WaitGroup\<close>: \<open>Add(delta)\<close> panics when the counter would become negative;
  \<open>Done()\<close> is \<open>Add(-1)\<close>.\<close>

definition wgAdd :: "int \<Rightarrow> int \<Rightarrow> int outcome" where
  "wgAdd counter delta =
     (if counter + delta < 0 then Panics NegativeWaitGroupCounter else Ret (counter + delta))"

definition wgDone :: "int \<Rightarrow> int outcome" where
  "wgDone counter = wgAdd counter (- 1)"

section \<open>Package tqlog\<close>

text \<open>
  The two package variables. \<open>tranqapLog\<close> is \<open>None\<close> while no log file is open, and otherwise
  holds the \<open>Printf\<close> calls made on the logger, each as its format and arguments.
  \<open>printFeedback\<close> is \<open>None\<close> while no callback is installed, and otherwise holds the calls
  the callback has received.
\<close>

type_synonym printf_call = "string \<times> string list"

record tqlog =
  tranqapLog :: "printf_call list option"
  printFeedback :: "printf_call list option"

definition newline :: char where
  "newline = CHR 0x0A"

definition logError :: "printf_call list \<Rightarrow> string \<Rightarrow> string list \<Rightarrow> printf_call list outcome" where
  "logError l format a =
     (if format = [] then Panics IndexOutOfRange
      else if last format \<noteq> newline then Ret (l @ [(''ERROR: '' @ format @ [newline], a)])
      else Ret (l @ [(''ERROR: '' @ format, a)]))"

definition logInfo :: "printf_call list \<Rightarrow> string \<Rightarrow> string list \<Rightarrow> printf_call list" where
  "logInfo l format a = l @ [(''INFO: '' @ format, a)]"

definition Error :: "tqlog \<Rightarrow> string \<Rightarrow> string list \<Rightarrow> tqlog outcome" where
  "Error lg format a =
     (case tranqapLog lg of
        None \<Rightarrow> Ret lg
      | Some l \<Rightarrow> bind (logError l format a) (\<lambda>l'. Ret (lg\<lparr>tranqapLog := Some l'\<rparr>)))"

definition Info :: "tqlog \<Rightarrow> string \<Rightarrow> string list \<Rightarrow> tqlog" where
  "Info lg format a =
     (case tranqapLog lg of
        None \<Rightarrow> lg
      | Some l \<Rightarrow> lg\<lparr>tranqapLog := Some (logInfo l format a)\<rparr>)"

definition Feedback :: "tqlog \<Rightarrow> string \<Rightarrow> string list \<Rightarrow> tqlog" where
  "Feedback lg format a =
     (case printFeedback lg of
        None \<Rightarrow> lg
      | Some calls \<Rightarrow> lg\<lparr>printFeedback := Some (calls @ [(format, a)])\<rparr>)"

section \<open>Package capture: the Storage of Capturers\<close>

text \<open>
  \<open>Capturer\<close> is an interface, and the Storage sees a capturer through its methods only. A
  value of it is modelled by the identity of the object behind it and by what its methods answer:
  \<open>Name()\<close>, the error of \<open>Stop()\<close> and the error of \<open>AddOutputer\<close>. An \<open>OutputerFactory\<close> is
  opaque to the Storage and is modelled by a token.
\<close>

record Capturer =
  ident :: nat
  captName :: string
  captStop :: "string option"
  captAddOutputer :: "string option"

type_synonym OutputerFactory_token = nat

record CapturerEvent =
  evFrom :: string
  evEvent :: int

definition CapturerDead :: int where "CapturerDead = 0"
definition CapturerStopped :: int where "CapturerStopped = 1"

text \<open>
  The effects a Storage has on its surroundings: the logger, and the method calls it makes on
  Capturers, in the order made.
\<close>

record world =
  logger :: tqlog
  stopCalls :: "Capturer list"
  addOutputerCalls :: "(Capturer \<times> OutputerFactory_token) list"

text \<open>
  The map \<open>capturers\<close> is an association list with at most one entry for each name; \<open>range\<close>
  over a Go map visits the entries in an order the run time chooses, which is the order of
  this list. \<open>wg\<close> is the counter of the \<open>sync.WaitGroup\<close>.
\<close>

record Storage =
  capturers :: "(string \<times> Capturer) list"
  wg :: int

definition NewStorage :: Storage where
  "NewStorage = \<lparr>capturers = [], wg = 0\<rparr>"

definition mapDelete :: "string \<Rightarrow> (string \<times> Capturer) list \<Rightarrow> (string \<times> Capturer) list" where
  "mapDelete k m = filter (\<lambda>kv. fst kv \<noteq> k) m"

definition Add :: "Storage \<Rightarrow> Capturer \<Rightarrow> (string option \<times> Storage) outcome" where
  "Add c newCapt =
     (case map_of (capturers c) (captName newCapt) of
        Some old \<Rightarrow> Ret (Some (''capturer ['' @ captName newCapt @ ''] already exists''), c)
      | None \<Rightarrow>
          bind (wgAdd (wg c) 1) (\<lambda>counter.
            Ret (None, c\<lparr>capturers := capturers c @ [(captName newCapt, newCapt)],
                          wg := counter\<rparr>)))"

fun stopEach :: "world \<Rightarrow> Capturer list \<Rightarrow> world outcome" where
  "stopEach w [] = Ret w"
| "stopEach w (c # cs) =
     (let w1 = w\<lparr>stopCalls := stopCalls w @ [c]\<rparr> in
      case captStop c of
        None \<Rightarrow> stopEach w1 cs
      | Some err \<Rightarrow>
          (let errMsg = ''Can't stop '' @ captName c @ ''. '' @ err in
           bind (Error (logger w1) errMsg []) (\<lambda>lg.
             stopEach (w1\<lparr>logger := Feedback lg errMsg []\<rparr>) cs)))"

text \<open>\<open>StopAll\<close> is the one method written to be called on a nil pointer: the receiver is
  \<open>None\<close> for nil.\<close>

definition StopAll :: "world \<Rightarrow> Storage option \<Rightarrow> world outcome" where
  "StopAll w c =
     (case c of
        None \<Rightarrow>
          Ret (w\<lparr>logger := Info (logger w) ''capture.Storage: StopAll() called on a nil instance'' []\<rparr>)
      | Some s \<Rightarrow>
          stopEach (w\<lparr>logger := Info (logger w) ''capture.Storage: Calling Stop for each capturer'' []\<rparr>)
            (map snd (capturers s)))"

fun addToEach :: "world \<Rightarrow> OutputerFactory_token \<Rightarrow> Capturer list \<Rightarrow> world outcome" where
  "addToEach w factFn [] = Ret w"
| "addToEach w factFn (capt # cs) =
     (let w1 = w\<lparr>addOutputerCalls := addOutputerCalls w @ [(capt, factFn)]\<rparr> in
      case captAddOutputer capt of
        None \<Rightarrow> addToEach w1 factFn cs
      | Some err \<Rightarrow>
          bind (Error (logger w1) ''Error adding Outputer to capturer %s'' [captName capt]) (\<lambda>lg.
            addToEach (w1\<lparr>logger := lg\<rparr>) factFn cs))"

fun addToTargets ::
  "world \<Rightarrow> (string \<times> Capturer) list \<Rightarrow> OutputerFactory_token \<Rightarrow> string list \<Rightarrow> world outcome" where
  "addToTargets w m factFn [] = Ret w"
| "addToTargets w m factFn (t # ts) =
     (case map_of m t of
        Some capt \<Rightarrow>
          (let w1 = w\<lparr>addOutputerCalls := addOutputerCalls w @ [(capt, factFn)]\<rparr> in
           case captAddOutputer capt of
             None \<Rightarrow> addToTargets w1 m factFn ts
           | Some err \<Rightarrow>
               bind (Error (logger w1) ''Error adding Outputer to capturer %s'' [captName capt]) (\<lambda>lg.
                 addToTargets (w1\<lparr>logger := lg\<rparr>) m factFn ts))
      | None \<Rightarrow>
          (let errMsg = ''Target <'' @ t @ ''> doesn't exist.'' @ [newline] in
           bind (Error (Feedback (logger w) errMsg []) errMsg []) (\<lambda>lg.
             addToTargets (w\<lparr>logger := lg\<rparr>) m factFn ts)))"

definition AddNewOutput ::
  "world \<Rightarrow> Storage \<Rightarrow> OutputerFactory_token \<Rightarrow> string list \<Rightarrow> world outcome" where
  "AddNewOutput w c factFn targets =
     (if length targets = 0 then
        (if length (capturers c) = 0 then
           bind (Error (logger w) ''wireshark called without arguments, but no capturers are running.'' [])
             (\<lambda>lg. Ret (w\<lparr>logger :=
                Feedback lg (''There are no running capturers. Use start first.'' @ [newline]) []\<rparr>))
         else addToEach w factFn (map snd (capturers c)))
      else addToTargets w (capturers c) factFn targets)"

definition Empty :: "Storage \<Rightarrow> bool" where
  "Empty c = (length (capturers c) = 0)"

text \<open>One turn of the loop of \<open>eventHandler\<close>, and the loop over the events that arrive on
  the channel until it is closed.\<close>

definition handleEvent :: "tqlog \<times> Storage \<Rightarrow> CapturerEvent \<Rightarrow> (tqlog \<times> Storage) outcome" where
  "handleEvent lc e =
     (let lg1 = Info (fst lc) ''Storage: got an event from %s'' [evFrom e];
          c1 = (snd lc)\<lparr>capturers := mapDelete (evFrom e) (capturers (snd lc))\<rparr>;
          lg2 = Info lg1 ''Storage: Removed %s'' [evFrom e]
      in bind (wgDone (wg c1)) (\<lambda>counter. Ret (lg2, c1\<lparr>wg := counter\<rparr>)))"

fun eventLoop :: "tqlog \<times> Storage \<Rightarrow> CapturerEvent list \<Rightarrow> (tqlog \<times> Storage) outcome" where
  "eventLoop lc [] = Ret lc"
| "eventLoop lc (e # es) = bind (handleEvent lc e) (\<lambda>lc'. eventLoop lc' es)"

definition eventHandler :: "tqlog \<times> Storage \<Rightarrow> CapturerEvent list \<Rightarrow> (tqlog \<times> Storage) outcome" where
  "eventHandler lc es =
     bind (eventLoop (Info (fst lc) ''capture.Storage: Starting eventHandler main loop'' [], snd lc) es)
       (\<lambda>lc'. Ret (Info (fst lc')
          ''capture.Storage: All capturers are stopped. Exited from eventHandler main loop'' [], snd lc'))"

section \<open>Package output: the MultiOutput\<close>

type_synonym byte = "8 word"

text \<open>
  A Go slice \<open>p\<close>: \<open>elems\<close> are the bytes \<open>p[0], ..., p[len(p)-1]\<close>, and \<open>spare\<close> are the bytes
  of its backing array from index \<open>len(p)\<close> up to \<open>cap(p)\<close>. The slice expression \<open>p[0:k]\<close>
  is legal up to \<open>k = cap(p)\<close>, beyond \<open>len(p)\<close> too, and panics above it.
\<close>

record slice =
  elems :: "byte list"
  spare :: "byte list"

definition len :: "slice \<Rightarrow> nat" where
  "len p = length (elems p)"

definition cap :: "slice \<Rightarrow> nat" where
  "cap p = length (elems p) + length (spare p)"

definition sliceTo :: "slice \<Rightarrow> nat \<Rightarrow> byte list outcome" where
  "sliceTo p k = (if k \<le> cap p then Ret (take k (elems p @ spare p)) else Panics SliceBoundsOutOfRange)"

definition pcapHeaderSize :: nat where
  "pcapHeaderSize = 24"

definition OutputerDead :: int where
  "OutputerDead = 0"

text \<open>
  \<open>Outputer\<close> is an interface; a value of it is the identity of the object behind it. What
  the objects have been given is kept in a store: the bytes passed to \<open>Write\<close>, in order,
  and whether \<open>Close\<close> has been called.
\<close>

type_synonym Outputer = nat

type_synonym MOEventChan = nat

type_synonym OutputerFactory = "MOEventChan \<Rightarrow> Outputer option"

record MultiOutputEvent =
  moFrom :: Outputer
  moEvent :: int

record sinks =
  written :: "Outputer \<Rightarrow> byte list"
  closedSink :: "Outputer \<Rightarrow> bool"

record MultiOutput =
  members :: "Outputer list"
  pcapHeader :: "byte list"
  events :: MOEventChan
  eventsClosed :: bool
  wgMO :: int

definition NewMultiOutput :: "MOEventChan \<Rightarrow> Outputer list \<Rightarrow> MultiOutput" where
  "NewMultiOutput ch outputers =
     \<lparr>members = outputers, pcapHeader = [], events = ch, eventsClosed = False, wgMO = 0\<rparr>"

definition writeTo :: "sinks \<Rightarrow> Outputer \<Rightarrow> byte list \<Rightarrow> sinks" where
  "writeTo st out bs = st\<lparr>written := (written st)(out := written st out @ bs)\<rparr>"

fun forward :: "sinks \<Rightarrow> Outputer list \<Rightarrow> byte list \<Rightarrow> sinks" where
  "forward st [] bs = st"
| "forward st (out # outs) bs = forward (writeTo st out bs) outs bs"

definition Write ::
  "sinks \<times> MultiOutput \<Rightarrow> slice \<Rightarrow> ((sinks \<times> MultiOutput) \<times> nat \<times> string option) outcome" where
  "Write sm p =
     (let mo = snd sm; currHdrLen = length (pcapHeader mo) in
      bind (if currHdrLen < pcapHeaderSize
            then bind (sliceTo p (pcapHeaderSize - currHdrLen))
                   (\<lambda>bs. Ret (mo\<lparr>pcapHeader := pcapHeader mo @ bs\<rparr>))
            else Ret mo)
        (\<lambda>mo1. Ret ((forward (fst sm) (members mo1) (elems p), mo1), len p, None)))"

fun closeEach :: "sinks \<Rightarrow> Outputer list \<Rightarrow> sinks" where
  "closeEach st [] = st"
| "closeEach st (out # outs) = closeEach (st\<lparr>closedSink := (closedSink st)(out := True)\<rparr>) outs"

text \<open>
  \<open>Close\<close> holds \<open>membersMut\<close> until it returns, and the handler of events calls \<open>wg.Done()\<close>
  only with that mutex held: when the counter is positive at \<open>wg.Wait()\<close> it stays so, and
  \<open>Close\<close> does not return.
\<close>

definition Close :: "sinks \<times> MultiOutput \<Rightarrow> (sinks \<times> MultiOutput) outcome" where
  "Close sm =
     (let mo = snd sm; st1 = closeEach (fst sm) (members mo) in
      if wgMO mo \<noteq> 0 then Blocks
      else if eventsClosed mo then Panics CloseOfClosedChannel
      else Ret (st1, mo\<lparr>eventsClosed := True\<rparr>))"

definition AddExtMember ::
  "sinks \<times> MultiOutput \<Rightarrow> OutputerFactory \<Rightarrow> ((sinks \<times> MultiOutput) \<times> string option) outcome" where
  "AddExtMember sm newOutFn =
     (let mo = snd sm in
      case newOutFn (events mo) of
        None \<Rightarrow> Ret (sm, Some ''Error creating Outputer with factory function'')
      | Some newMember \<Rightarrow>
          bind (wgAdd (wgMO mo) 1) (\<lambda>counter.
            Ret ((writeTo (fst sm) newMember (pcapHeader mo),
                  mo\<lparr>wgMO := counter, members := members mo @ [newMember]\<rparr>), None)))"

fun removeFirst :: "Outputer \<Rightarrow> Outputer list \<Rightarrow> Outputer list option" where
  "removeFirst x [] = None"
| "removeFirst x (c # cs) = (if c = x then Some cs else map_option ((#) c) (removeFirst x cs))"

definition moHandleEvent :: "tqlog \<times> MultiOutput \<Rightarrow> MultiOutputEvent \<Rightarrow> (tqlog \<times> MultiOutput) outcome" where
  "moHandleEvent lm event =
     (case removeFirst (moFrom event) (members (snd lm)) of
        None \<Rightarrow> Ret lm
      | Some ms \<Rightarrow>
          bind (wgDone (wgMO (snd lm))) (\<lambda>counter.
            Ret (Info (fst lm) ''Outputer stopped.'' [], (snd lm)\<lparr>members := ms, wgMO := counter\<rparr>)))"

fun moEventHandler :: "tqlog \<times> MultiOutput \<Rightarrow> MultiOutputEvent list \<Rightarrow> (tqlog \<times> MultiOutput) outcome" where
  "moEventHandler lm [] = Ret lm"
| "moEventHandler lm (e # es) = bind (moHandleEvent lm e) (\<lambda>lm'. moEventHandler lm' es)"

text \<open>A run of \<open>Write\<close> calls, one after the other, stopping at the first that panics.\<close>

fun writeAll :: "sinks \<times> MultiOutput \<Rightarrow> slice list \<Rightarrow> (sinks \<times> MultiOutput) outcome" where
  "writeAll sm [] = Ret sm"
| "writeAll sm (p # ps) = bind (Write sm p) (\<lambda>r. writeAll (fst r) ps)"

text \<open>
  The calls a MultiOutput receives and the events its handler takes from the channel, one at
  a time: each holds \<open>membersMut\<close> around what it does to the members.
\<close>

datatype call =
    CallWrite slice
  | CallAddExtMember OutputerFactory
  | Event MultiOutputEvent

fun step :: "tqlog \<times> sinks \<times> MultiOutput \<Rightarrow> call \<Rightarrow> (tqlog \<times> sinks \<times> MultiOutput) outcome" where
  "step (lg, sm) (CallWrite p) = bind (Write sm p) (\<lambda>r. Ret (lg, fst r))"
| "step (lg, sm) (CallAddExtMember newOutFn) = bind (AddExtMember sm newOutFn) (\<lambda>r. Ret (lg, fst r))"
| "step (lg, sm) (Event e) = bind (moHandleEvent (lg, snd sm) e) (\<lambda>lm. Ret (fst lm, fst sm, snd lm))"

fun run :: "tqlog \<times> sinks \<times> MultiOutput \<Rightarrow> call list \<Rightarrow> (tqlog \<times> sinks \<times> MultiOutput) outcome" where
  "run s [] = Ret s"
| "run s (c # cs) = bind (step s c) (\<lambda>s'. run s' cs)"

fun eventSources :: "call list \<Rightarrow> Outputer list" where
  "eventSources [] = []"
| "eventSources (Event e # cs) = moFrom e # eventSources cs"
| "eventSources (c # cs) = eventSources cs"

fun addCalls :: "call list \<Rightarrow> nat" where
  "addCalls [] = 0"
| "addCalls (CallAddExtMember newOutFn # cs) = Suc (addCalls cs)"
| "addCalls (c # cs) = addCalls cs"

definition noSinks :: sinks where
  "noSinks = \<lparr>written = (\<lambda>out. []), closedSink = (\<lambda>out. False)\<rparr>"

section \<open>Package main: the configuration\<close>

text \<open>Every field of a target is a pointer: \<open>None\<close> is nil, the field the document left out.\<close>

record target =
  Name :: "string option"
  Host :: "string option"
  Port :: "int option"
  User :: "string option"
  Key :: "string option"
  Destination :: "string option"
  FilePattern :: "string option"
  RotationCnt :: "int option"
  UseSudo :: "bool option"
  FilterPort :: "int option"

record configParams =
  Targets :: "target list"

text \<open>
  The files the program reads and writes: the content under each path; the paths the
  operating system refuses to look at, with its reason (a parent that is not a directory,
  a permission that is missing); and whether the file system refuses writes.
\<close>

record filesystem =
  files :: "string \<rightharpoonup> string"
  statError :: "string \<rightharpoonup> string"
  readOnly :: bool

text \<open>\<open>os.Stat\<close>: the file is there, or it is not, or the call fails for another reason.
  \<open>os.IsNotExist\<close> holds of the second only.\<close>

datatype statResult = StatOk | StatNotExist | StatFails string

definition Stat :: "filesystem \<Rightarrow> string \<Rightarrow> statResult" where
  "Stat fs path =
     (case statError fs path of
        Some reason \<Rightarrow> StatFails reason
      | None \<Rightarrow> (case files fs path of None \<Rightarrow> StatNotExist | Some content \<Rightarrow> StatOk))"

definition IsNotExist :: "statResult \<Rightarrow> bool" where
  "IsNotExist r = (case r of StatNotExist \<Rightarrow> True | StatOk \<Rightarrow> False | StatFails reason \<Rightarrow> False)"

definition ReadFile :: "filesystem \<Rightarrow> string \<Rightarrow> string + string" where
  "ReadFile fs fname =
     (case statError fs fname of
        Some reason \<Rightarrow> Inl (''open '' @ fname @ '': '' @ reason)
      | None \<Rightarrow>
          (case files fs fname of
             None \<Rightarrow> Inl (''open '' @ fname @ '': no such file or directory'')
           | Some content \<Rightarrow> Inr content))"

definition WriteFile :: "filesystem \<Rightarrow> string \<Rightarrow> string \<Rightarrow> string option \<times> filesystem" where
  "WriteFile fs fname content =
     (if readOnly fs then (Some (''open '' @ fname @ '': read-only file system''), fs)
      else
        (case statError fs fname of
           Some reason \<Rightarrow> (Some (''open '' @ fname @ '': '' @ reason), fs)
         | None \<Rightarrow> (None, fs\<lparr>files := (files fs)(fname \<mapsto> content)\<rparr>)))"

text \<open>\<open>%d\<close> of \<open>fmt\<close>: an integer in decimal.\<close>

fun showNat :: "nat \<Rightarrow> string" where
  "showNat n =
     (if n < 10 then [''0123456789'' ! n] else showNat (n div 10) @ [''0123456789'' ! (n mod 10)])"

declare showNat.simps [simp del]

definition showInt :: "int \<Rightarrow> string" where
  "showInt i = (if i < 0 then ''-'' @ showNat (nat (- i)) else showNat (nat i))"

fun checkNames :: "string set \<Rightarrow> target list \<Rightarrow> string option outcome" where
  "checkNames nameSet [] = Ret None"
| "checkNames nameSet (t # ts) =
     (case Name t of
        None \<Rightarrow> Panics NilDereference
      | Some n \<Rightarrow>
          if n \<in> nameSet then Ret (Some (''target '' @ n @ '' is defined more than once''))
          else checkNames (insert n nameSet) ts)"

definition checkForDuplicates :: "configParams \<Rightarrow> string option outcome" where
  "checkForDuplicates config = checkNames {} (Targets config)"

text \<open>
  \<open>yaml.Unmarshal\<close> and \<open>yaml.Marshal\<close> belong to a library outside the repository and are
  parameters: \<open>Unmarshal\<close> gives the value it has filled in and its error, \<open>Marshal\<close> the
  document and its error.
\<close>

type_synonym unmarshal = "string \<Rightarrow> configParams \<times> string option"

type_synonym marshal = "(string \<times> target list) list \<Rightarrow> string \<times> string option"

definition parseConfig :: "unmarshal \<Rightarrow> string \<Rightarrow> (configParams \<times> string option) outcome" where
  "parseConfig Unmarshal confFile =
     (let conf = fst (Unmarshal confFile); err = snd (Unmarshal confFile) in
      if err \<noteq> None then Ret (conf, err)
      else if length (Targets conf) = 0 then Ret (conf, Some ''No targets defined in config'')
      else bind (checkForDuplicates conf) (\<lambda>err.
             if err \<noteq> None then Ret (conf, err) else Ret (conf, None)))"

definition readConfigFromFile ::
  "unmarshal \<Rightarrow> filesystem \<Rightarrow> string \<Rightarrow> (configParams \<times> string option) outcome" where
  "readConfigFromFile Unmarshal fs fname =
     (case ReadFile fs fname of
        Inl err \<Rightarrow>
          Ret (\<lparr>Targets = []\<rparr>,
               Some (err @ ''. Run init subcommand to generate empty config or provide path to existing config with -c''))
      | Inr confFile \<Rightarrow>
          bind (parseConfig Unmarshal confFile) (\<lambda>r.
            case snd r of
              Some err \<Rightarrow> Ret (\<lparr>Targets = []\<rparr>, Some (''Error parsing '' @ fname @ '': '' @ err))
            | None \<Rightarrow> Ret (fst r, None)))"

datatype 'signer AuthMethod = PublicKeys 'signer

datatype HostKeyCallback = InsecureIgnoreHostKey

record 'signer ClientConfig =
  ccUser :: string
  ccAuth :: "'signer AuthMethod list"
  ccHostKeyCallback :: HostKeyCallback

text \<open>
  \<open>getClientConfig\<close> writes the defaults through the pointer it is given, so the target
  as it is left is part of the result, with the logger and the values returned: an error,
  or the client configuration and the destination. \<open>ssh.ParsePrivateKey\<close> is a parameter.
\<close>

definition getClientConfig ::
  "(string \<Rightarrow> string + 'signer) \<Rightarrow> filesystem \<Rightarrow> tqlog \<times> target
     \<Rightarrow> (tqlog \<times> target) \<times> (string + 'signer ClientConfig \<times> string)" where
  "getClientConfig ParsePrivateKey fs lt =
     (let lg = fst lt; t = snd lt in
      case Name t of
        None \<Rightarrow> (lt, Inl ''Missing Name in configuration'')
      | Some name \<Rightarrow>
     (if User t = None then (lt, Inl (''Missing user for target <'' @ name @ ''> in configuration''))
      else if Key t = None then (lt, Inl (''Missing Key path for target <'' @ name @ ''> in configuration''))
      else if Host t = None then (lt, Inl (''Missing Host for target <'' @ name @ ''> in configuration''))
      else
      let lt1 = (if Port t = None
                 then (Info lg (''Port not set for target <%s>. Setting to 22.'' @ [newline]) [name],
                       t\<lparr>Port := Some 22\<rparr>)
                 else lt);
          lg1 = fst lt1; t1 = snd lt1 in
      if Destination t1 = None
      then (lt1, Inl (''Missing destination for target <'' @ name @ ''> in configuration''))
      else if FilePattern t1 = None
      then (lt1, Inl (''Missing File Pattern for target <'' @ name @ ''>''))
      else
      let lt2 = (if RotationCnt t1 = None
                 then (Info lg1 (''File Rotation Count not set for target <%s>. Setting to 10.'' @ [newline]) [name],
                       t1\<lparr>RotationCnt := Some 10\<rparr>)
                 else lt1);
          t2 = snd lt2 in
      if the (RotationCnt t2) < 0
      then (lt2, Inl (''Invalid rotation count for target <'' @ name @ ''> (''
                        @ showInt (the (RotationCnt t2)) @ '')''))
      else
      let t3 = (if UseSudo t2 = None then t2\<lparr>UseSudo := Some False\<rparr> else t2);
          lt3 = (fst lt2, t3) in
      if FilterPort t3 \<noteq> None \<and> (the (FilterPort t3) < 1 \<or> the (FilterPort t3) > 65535)
      then (lt3, Inl (''Invalid port number for Filter port parameter: '' @ showInt (the (FilterPort t3))
                        @ ''. Expected value between 1 and 65535''))
      else
      let dest = the (Host t3) @ '':'' @ showInt (the (Port t3)) in
     (case ReadFile fs (the (Key t3)) of
        Inl err \<Rightarrow> (lt3, Inl (''unable to read private key: '' @ err))
      | Inr key \<Rightarrow>
          (case ParsePrivateKey key of
             Inl err \<Rightarrow> (lt3, Inl (''unable to parse private key: '' @ err))
           | Inr signer \<Rightarrow>
               (lt3, Inr (\<lparr>ccUser = the (User t3), ccAuth = [PublicKeys signer],
                            ccHostKeyCallback = InsecureIgnoreHostKey\<rparr>, dest))))))"

definition sampleTarget :: target where
  "sampleTarget =
     \<lparr>Name = Some ''Target name. Informational identification only.'',
      Host = Some ''Hostname/IP address of the target.'',
      Port = Some 22,
      User = Some ''SSH login.'',
      Key = Some ''Path to private key, used for authentication.'',
      Destination = Some ''Path to destination dir for the PCAP files.'',
      FilePattern = Some ''Filename pattern for each pcap file. Index and file extension will be added to this string.'',
      RotationCnt = Some 5,
      UseSudo = Some True,
      FilterPort = Some 22\<rparr>"

definition generateSampleConfig :: "marshal \<Rightarrow> filesystem \<Rightarrow> string \<Rightarrow> string option \<times> filesystem" where
  "generateSampleConfig Marshal fs path =
     (if \<not> IsNotExist (Stat fs path)
      then (Some (path @ '' already exists. Will not overwrite existing config''), fs)
      else
        let conf = [(''targets'', [sampleTarget])] in
        case snd (Marshal conf) of
          Some err \<Rightarrow> (Some (''Error serializing sample configuration: '' @ err), fs)
        | None \<Rightarrow>
            (case WriteFile fs path (fst (Marshal conf)) of
               (Some err, fs') \<Rightarrow> (Some (''Error writing sample configuration to file: '' @ err), fs')
             | (None, fs') \<Rightarrow> (None, fs')))"

fun appendNames :: "string list \<Rightarrow> target list \<Rightarrow> string list outcome" where
  "appendNames targets [] = Ret targets"
| "appendNames targets (t # ts) =
     (case Name t of
        None \<Rightarrow> Panics NilDereference
      | Some n \<Rightarrow> appendNames (targets @ [n]) ts)"

definition getTargetsList :: "configParams \<Rightarrow> string list outcome" where
  "getTargetsList cp = appendNames [] (Targets cp)"

section \<open>Values of the scenarios\<close>

text \<open>A logger with no log file and a callback that has received nothing yet, and one with
  neither.\<close>

definition lgShell :: tqlog where
  "lgShell = \<lparr>tranqapLog = None, printFeedback = Some []\<rparr>"

definition lgOff :: tqlog where
  "lgOff = \<lparr>tranqapLog = None, printFeedback = None\<rparr>"

definition capAlpha :: Capturer where
  "capAlpha = \<lparr>ident = 1, captName = ''alpha'', captStop = None, captAddOutputer = None\<rparr>"

definition capAlpha2 :: Capturer where
  "capAlpha2 = \<lparr>ident = 2, captName = ''alpha'', captStop = None, captAddOutputer = None\<rparr>"

definition capBeta :: Capturer where
  "capBeta = \<lparr>ident = 3, captName = ''beta'', captStop = None, captAddOutputer = None\<rparr>"

definition alphaStopped :: CapturerEvent where
  "alphaStopped = \<lparr>evFrom = ''alpha'', evEvent = CapturerStopped\<rparr>"

definition quietWorld :: world where
  "quietWorld = \<lparr>logger = lgShell, stopCalls = [], addOutputerCalls = []\<rparr>"

definition alphaBeta :: Storage where
  "alphaBeta = \<lparr>capturers = [(''alpha'', capAlpha), (''beta'', capBeta)], wg = 2\<rparr>"

text \<open>The header of a capture, its first ten bytes, the bytes that follow them with two
  bytes of a record, and what an earlier read has left in the buffer behind the ten bytes.\<close>

definition pcapHdr :: "byte list" where
  "pcapHdr = [0xD4, 0xC3, 0xB2, 0xA1, 2, 0, 4, 0, 0, 0, 0, 0, 0, 0, 0, 0, 0xFF, 0xFF, 0, 0, 1, 0, 0, 0]"

definition shortBuf :: "byte list" where
  "shortBuf = [0xD4, 0xC3, 0xB2, 0xA1, 2, 0, 4, 0, 0, 0]"

definition nextBuf :: "byte list" where
  "nextBuf = [0, 0, 0, 0, 0, 0, 0xFF, 0xFF, 0, 0, 1, 0, 0, 0, 0xAA, 0xAA]"

definition staleBytes :: "byte list" where
  "staleBytes = [0x55, 0x55, 0x55, 0x55, 0x55, 0x55, 0x55, 0x55, 0x55, 0x55, 0x55, 0x55, 0x55, 0x55, 0x55, 0x55]"

definition minimalTarget :: target where
  "minimalTarget =
     \<lparr>Name = Some ''alpha'', Host = Some ''10.0.0.1'', Port = None, User = Some ''root'',
      Key = Some ''/keys/id_rsa'', Destination = Some ''/tmp/x'', FilePattern = Some ''cap_'',
      RotationCnt = None, UseSudo = None, FilterPort = None\<rparr>"

definition namelessTarget :: target where
  "namelessTarget = minimalTarget\<lparr>Name := None\<rparr>"

text \<open>What \<open>yaml.Unmarshal\<close> makes of a document whose one target gives no name.\<close>

definition namelessUnmarshal :: unmarshal where
  "namelessUnmarshal doc = (\<lparr>Targets = [namelessTarget]\<rparr>, None)"

definition keyFs :: filesystem where
  "keyFs = \<lparr>files = [''/keys/id_rsa'' \<mapsto> ''PRIVATE KEY''], statError = Map.empty, readOnly = False\<rparr>"

definition anyKey :: "string \<Rightarrow> string + nat" where
  "anyKey key = Inr 1"

definition emptyFs :: filesystem where
  "emptyFs = \<lparr>files = Map.empty, statError = Map.empty, readOnly = False\<rparr>"

text \<open>A codec that knows one document, the sample, and reads it back as it was written.\<close>

definition exampleMarshal :: marshal where
  "exampleMarshal conf =
     (if conf = [(''targets'', [sampleTarget])] then (''targets: [sample]'', None)
      else ([], Some ''cannot marshal''))"

definition exampleUnmarshal :: unmarshal where
  "exampleUnmarshal doc =
     (if doc = ''targets: [sample]'' then (\<lparr>Targets = [sampleTarget]\<rparr>, None)
      else if doc = ''targets: []'' then (\<lparr>Targets = []\<rparr>, None)
      else (\<lparr>Targets = []\<rparr>, Some ''yaml: unmarshal errors''))"

section \<open>Outcomes\<close>

lemma bind_Ret [simp]: "bind (Ret x) f = f x"
  by (simp add: bind_def)

lemma bind_Panics [simp]: "bind (Panics e) f = Panics e"
  by (simp add: bind_def)

lemma bind_Blocks [simp]: "bind Blocks f = Blocks"
  by (simp add: bind_def)

section \<open>Properties of the Storage\<close>

subsection \<open>The counter of the wait group and the size of the map\<close>

lemma mapDelete_absent: "map_of m k = None \<Longrightarrow> mapDelete k m = m"
  by (induction m) (auto simp add: mapDelete_def split: if_splits)

lemma mapDelete_present:
  "distinct (map fst m) \<Longrightarrow> map_of m k = Some v \<Longrightarrow> Suc (length (mapDelete k m)) = length m"
proof (induction m)
  case Nil
  then show ?case by simp
next
  case (Cons kv m)
  show ?case
  proof (cases "fst kv = k")
    case True
    with Cons.prems have "k \<notin> fst ` set m" by auto
    then have "map_of m k = None" by (simp add: map_of_eq_None_iff)
    then have "mapDelete k m = m" by (rule mapDelete_absent)
    with True show ?thesis by (simp add: mapDelete_def)
  next
    case False
    with Cons show ?thesis by (simp add: mapDelete_def)
  qed
qed

lemma mapDelete_distinct: "distinct (map fst m) \<Longrightarrow> distinct (map fst (mapDelete k m))"
  by (simp add: mapDelete_def distinct_map_filter)

text \<open>\<open>Add\<close> keeps the counter equal to the number of entries, whether it adds or refuses.\<close>

lemma Add_keeps_counter:
  assumes "wg c = int (length (capturers c))" and "distinct (map fst (capturers c))"
  shows "\<exists>err c'. Add c newCapt = Ret (err, c')
           \<and> wg c' = int (length (capturers c')) \<and> distinct (map fst (capturers c'))
           \<and> (err = None \<longleftrightarrow> map_of (capturers c) (captName newCapt) = None)"
proof (cases "map_of (capturers c) (captName newCapt)")
  case None
  then have "captName newCapt \<notin> fst ` set (capturers c)" by (simp add: map_of_eq_None_iff)
  with None assms show ?thesis by (simp add: Add_def wgAdd_def)
next
  case (Some old)
  with assms show ?thesis by (simp add: Add_def)
qed

text \<open>So does the handler, for an event whose name is in the map.\<close>

lemma handleEvent_known_name:
  assumes "wg c = int (length (capturers c))" and "distinct (map fst (capturers c))"
      and "map_of (capturers c) (evFrom e) = Some capt"
  shows "\<exists>lg' c'. handleEvent (lg, c) e = Ret (lg', c')
           \<and> capturers c' = mapDelete (evFrom e) (capturers c)
           \<and> wg c' = int (length (capturers c')) \<and> distinct (map fst (capturers c'))"
proof -
  have "Suc (length (mapDelete (evFrom e) (capturers c))) = length (capturers c)"
    using mapDelete_present [OF assms(2,3)] .
  then have "int (length (capturers c)) = int (length (mapDelete (evFrom e) (capturers c))) + 1"
    by linarith
  then show ?thesis
    using assms(1,2) by (simp add: handleEvent_def Let_def wgDone_def wgAdd_def mapDelete_distinct)
qed

text \<open>For an event whose name is not in the map the removal changes nothing, and
  \<open>wg.Done()\<close> is called all the same.\<close>

lemma handleEvent_unknown_name:
  assumes "map_of (capturers c) (evFrom e) = None"
  shows "handleEvent (lg, c) e
           = (if wg c \<le> 0 then Panics NegativeWaitGroupCounter
              else Ret (Info (Info lg ''Storage: got an event from %s'' [evFrom e])
                          ''Storage: Removed %s'' [evFrom e],
                        c\<lparr>wg := wg c - 1\<rparr>))"
  using assms by (simp add: handleEvent_def Let_def wgDone_def wgAdd_def mapDelete_absent)

text \<open>
  Claim C3. The counter of the wait group equals the number of entries of the map after every
  operation, and a second event for a name already removed leaves the map as it is and keeps
  that equality. The handler run on the events of the claim: with \<open>alpha\<close> and \<open>beta\<close> in the
  map and the counter at 2, the first event for \<open>alpha\<close> leaves \<open>beta\<close> and the counter 1; the
  second event for \<open>alpha\<close> leaves \<open>beta\<close> in the map and takes the counter to 0, one less than
  the number of entries; with \<open>alpha\<close> alone in the map the second event panics on a negative
  counter.
\<close>

theorem eventHandler_duplicate_event:
  "Add \<lparr>capturers = [(''alpha'', capAlpha)], wg = 1\<rparr> capBeta = Ret (None, alphaBeta)
   \<and> eventLoop (lgShell, alphaBeta) [alphaStopped]
     = Ret (lgShell, \<lparr>capturers = [(''beta'', capBeta)], wg = 1\<rparr>)
   \<and> eventLoop (lgShell, alphaBeta) [alphaStopped, alphaStopped]
     = Ret (lgShell, \<lparr>capturers = [(''beta'', capBeta)], wg = 0\<rparr>)
   \<and> Add NewStorage capAlpha = Ret (None, \<lparr>capturers = [(''alpha'', capAlpha)], wg = 1\<rparr>)
   \<and> eventLoop (lgShell, \<lparr>capturers = [(''alpha'', capAlpha)], wg = 1\<rparr>) [alphaStopped, alphaStopped]
     = Panics NegativeWaitGroupCounter"
  by (simp add: handleEvent_def Info_def lgShell_def mapDelete_def wgDone_def wgAdd_def
      alphaStopped_def alphaBeta_def Add_def NewStorage_def capAlpha_def capBeta_def)

subsection \<open>Adding under a name in use\<close>

text \<open>
  Claim C4. When the Storage already holds a capturer under the name of the new one,
  \<open>Add\<close> returns the error "capturer [name] already exists" and the Storage it leaves is
  the one it found: the entry under the name is the old capturer and the counter of the
  wait group is the old counter.
\<close>

theorem Add_duplicate_rejected:
  assumes "map_of (capturers c) (captName newCapt) = Some old"
  shows "\<exists>c'. Add c newCapt = Ret (Some (''capturer ['' @ captName newCapt @ ''] already exists''), c')
           \<and> c' = c
           \<and> map_of (capturers c') (captName newCapt) = Some old
           \<and> wg c' = wg c"
  using assms by (simp add: Add_def)

theorem Add_duplicate_rejected_witness:
  "Add NewStorage capAlpha = Ret (None, \<lparr>capturers = [(''alpha'', capAlpha)], wg = 1\<rparr>)
   \<and> map_of (capturers \<lparr>capturers = [(''alpha'', capAlpha)], wg = 1\<rparr>) (captName capAlpha2) = Some capAlpha
   \<and> Add \<lparr>capturers = [(''alpha'', capAlpha)], wg = 1\<rparr> capAlpha2
       = Ret (Some ''capturer [alpha] already exists'', \<lparr>capturers = [(''alpha'', capAlpha)], wg = 1\<rparr>)"
  using Add_duplicate_rejected [of "\<lparr>capturers = [(''alpha'', capAlpha)], wg = 1\<rparr>" capAlpha2 capAlpha]
  by (simp add: Add_def NewStorage_def wgAdd_def capAlpha_def capAlpha2_def)

subsection \<open>Adding an output to named targets\<close>

lemma Error_nonempty:
  "format \<noteq> [] \<Longrightarrow> \<exists>lg'. Error lg format a = Ret lg' \<and> printFeedback lg' = printFeedback lg"
  by (cases "tranqapLog lg") (simp_all add: Error_def logError_def)

lemma Feedback_installed:
  "printFeedback lg = Some fb \<Longrightarrow> printFeedback (Feedback lg format a) = Some (fb @ [(format, a)])"
  by (simp add: Feedback_def)

lemma addToTargets_effects:
  "printFeedback (logger w) = Some fb \<Longrightarrow>
   \<exists>w'. addToTargets w m factFn ts = Ret w'
     \<and> printFeedback (logger w')
         = Some (fb @ map (\<lambda>t. (''Target <'' @ t @ ''> doesn't exist.'' @ [newline], []))
                        (filter (\<lambda>t. map_of m t = None) ts))
     \<and> addOutputerCalls w'
         = addOutputerCalls w @ map (\<lambda>t. (the (map_of m t), factFn)) (filter (\<lambda>t. map_of m t \<noteq> None) ts)
     \<and> stopCalls w' = stopCalls w"
proof (induction ts arbitrary: w fb)
  case Nil
  then show ?case by simp
next
  case (Cons t ts)
  show ?case
  proof (cases "map_of m t")
    case None
    let ?msg = "''Target <'' @ t @ ''> doesn't exist.'' @ [newline]"
    obtain lg' where lg': "Error (Feedback (logger w) ?msg []) ?msg [] = Ret lg'"
      "printFeedback lg' = printFeedback (Feedback (logger w) ?msg [])"
      using Error_nonempty [of ?msg "Feedback (logger w) ?msg []" "[]"] by auto
    have fb': "printFeedback (logger (w\<lparr>logger := lg'\<rparr>)) = Some (fb @ [(?msg, [])])"
      using lg'(2) Feedback_installed [OF Cons.prems] by simp
    from Cons.IH [OF fb'] None lg'(1) show ?thesis by simp
  next
    case (Some capt)
    let ?w1 = "w\<lparr>addOutputerCalls := addOutputerCalls w @ [(capt, factFn)]\<rparr>"
    show ?thesis
    proof (cases "captAddOutputer capt")
      case None
      have "printFeedback (logger ?w1) = Some fb" using Cons.prems by simp
      from Cons.IH [OF this] Some None show ?thesis by simp
    next
      case (Some err)
      obtain lg' where lg':
        "Error (logger ?w1) ''Error adding Outputer to capturer %s'' [captName capt] = Ret lg'"
        "printFeedback lg' = printFeedback (logger ?w1)"
        using Error_nonempty [of "''Error adding Outputer to capturer %s''" "logger ?w1" "[captName capt]"]
        by auto
      have "printFeedback (logger (?w1\<lparr>logger := lg'\<rparr>)) = Some fb" using lg'(2) Cons.prems by simp
      from Cons.IH [OF this] \<open>map_of m t = Some capt\<close> Some lg'(1) show ?thesis by simp
    qed
  qed
qed

text \<open>
  Claim C5. \<open>AddNewOutput\<close> with a list of names that is not empty, a feedback callback being
  installed: it returns; the callback receives, in the order of the list, one call for each
  requested name that is not in the Storage, with the text "Target <name> doesn't exist."
  and a line end, and nothing else; \<open>AddOutputer\<close> is called, in the order of the list, once
  for each requested name that is in the Storage, on the capturer stored under that name, and
  on no other capturer.
\<close>

theorem AddNewOutput_named_targets:
  assumes "targets \<noteq> []" and "printFeedback (logger w) = Some fb"
  shows "\<exists>w'. AddNewOutput w c factFn targets = Ret w'
     \<and> printFeedback (logger w')
         = Some (fb @ map (\<lambda>t. (''Target <'' @ t @ ''> doesn't exist.'' @ [newline], []))
                        (filter (\<lambda>t. map_of (capturers c) t = None) targets))
     \<and> addOutputerCalls w'
         = addOutputerCalls w @ map (\<lambda>t. (the (map_of (capturers c) t), factFn))
                                   (filter (\<lambda>t. map_of (capturers c) t \<noteq> None) targets)"
  using assms addToTargets_effects [of w fb "capturers c" factFn targets]
  by (auto simp add: AddNewOutput_def)

theorem AddNewOutput_named_targets_witness:
  "[''gamma''] \<noteq> [] \<and> printFeedback (logger quietWorld) = Some []
   \<and> AddNewOutput quietWorld alphaBeta 7 [''gamma'']
       = Ret (quietWorld\<lparr>logger :=
                lgShell\<lparr>printFeedback := Some [(''Target <gamma> doesn't exist.'' @ [newline], [])]\<rparr>\<rparr>)
   \<and> AddNewOutput quietWorld alphaBeta 7 [''beta'', ''gamma'']
       = Ret (quietWorld\<lparr>logger :=
                lgShell\<lparr>printFeedback := Some [(''Target <gamma> doesn't exist.'' @ [newline], [])]\<rparr>,
              addOutputerCalls := [(capBeta, 7)]\<rparr>)"
  using AddNewOutput_named_targets [of "[''gamma'']" quietWorld "[]" alphaBeta 7]
  by (simp add: AddNewOutput_def quietWorld_def alphaBeta_def lgShell_def Feedback_def Error_def
      capAlpha_def capBeta_def)

subsection \<open>Stopping through a nil pointer\<close>

text \<open>
  Claim C9. \<open>StopAll\<close> on a nil pointer returns: it does not panic and does not block. It calls
  \<open>Stop\<close> on no capturer and \<open>AddOutputer\<close> on none, and sends no feedback. What it leaves
  behind is one \<open>Info\<close> record in the log file, when a log file is open.
\<close>

theorem StopAll_nil_receiver:
  "\<exists>w'. StopAll w None = Ret w'
     \<and> stopCalls w' = stopCalls w
     \<and> addOutputerCalls w' = addOutputerCalls w
     \<and> printFeedback (logger w') = printFeedback (logger w)
     \<and> tranqapLog (logger w')
         = map_option (\<lambda>l. l @ [(''INFO: capture.Storage: StopAll() called on a nil instance'', [])])
             (tranqapLog (logger w))"
  by (cases "tranqapLog (logger w)") (simp_all add: StopAll_def Info_def logInfo_def)

section \<open>Properties of the MultiOutput\<close>

subsection \<open>What Write and AddExtMember do to the header and to the sinks\<close>

lemma forward_written_other: "out \<notin> set outs \<Longrightarrow> written (forward st outs bs) out = written st out"
  by (induction outs arbitrary: st) (auto simp add: writeTo_def)

lemma forward_written_once:
  "count_list outs out = 1 \<Longrightarrow> written (forward st outs bs) out = written st out @ bs"
proof (induction outs arbitrary: st)
  case Nil
  then show ?case by simp
next
  case (Cons a outs)
  show ?case
  proof (cases "a = out")
    case True
    with Cons.prems have "count_list outs out = 0" by simp
    then have "out \<notin> set outs" by (simp add: count_list_0_iff)
    with True show ?thesis by (simp add: forward_written_other writeTo_def)
  next
    case False
    with Cons show ?thesis by (simp add: writeTo_def)
  qed
qed

text \<open>Once the header holds 24 bytes, \<open>Write\<close> returns and leaves it as it is.\<close>

lemma Write_header_full:
  "pcapHeaderSize \<le> length (pcapHeader (snd sm)) \<Longrightarrow>
   Write sm p = Ret ((forward (fst sm) (members (snd sm)) (elems p), snd sm), len p, None)"
  by (simp add: Write_def Let_def)

text \<open>While it holds fewer, a buffer at least as long as what is missing completes it with
  its first bytes.\<close>

lemma Write_header_capture:
  "length (pcapHeader (snd sm)) < pcapHeaderSize \<Longrightarrow>
   pcapHeaderSize - length (pcapHeader (snd sm)) \<le> len p \<Longrightarrow>
   Write sm p = Ret ((forward (fst sm) (members (snd sm)) (elems p),
                      (snd sm)\<lparr>pcapHeader := pcapHeader (snd sm)
                                  @ take (pcapHeaderSize - length (pcapHeader (snd sm))) (elems p)\<rparr>),
                     len p, None)"
  by (simp add: Write_def Let_def sliceTo_def cap_def len_def)

text \<open>\<open>AddExtMember\<close> writes the header as it stands to the new sink, and appends the sink.\<close>

lemma AddExtMember_replays_header:
  "newOutFn (events (snd sm)) = Some out \<Longrightarrow> 0 \<le> wgMO (snd sm) \<Longrightarrow>
   AddExtMember sm newOutFn
     = Ret ((writeTo (fst sm) out (pcapHeader (snd sm)),
             (snd sm)\<lparr>wgMO := wgMO (snd sm) + 1, members := members (snd sm) @ [out]\<rparr>), None)"
  by (simp add: AddExtMember_def wgAdd_def Let_def)

lemma writeAll_header_full:
  "pcapHeaderSize \<le> length (pcapHeader (snd sm)) \<Longrightarrow> count_list (members (snd sm)) out = 1 \<Longrightarrow>
   \<exists>st'. writeAll sm ps = Ret (st', snd sm)
     \<and> written st' out = written (fst sm) out @ concat (map elems ps)"
proof (induction ps arbitrary: sm)
  case Nil
  then show ?case by (cases sm) simp
next
  case (Cons p ps)
  let ?sm1 = "(forward (fst sm) (members (snd sm)) (elems p), snd sm)"
  have "pcapHeaderSize \<le> length (pcapHeader (snd ?sm1))" "count_list (members (snd ?sm1)) out = 1"
    using Cons.prems by simp_all
  from Cons.IH [OF this] Cons.prems show ?case
    by (simp add: Write_header_full forward_written_once)
qed

text \<open>A sink attached once the header is complete is given the header and then every buffer
  written after it was attached.\<close>

lemma late_sink_stream:
  assumes "length (pcapHeader mo) = pcapHeaderSize" and "newOutFn (events mo) = Some out"
      and "out \<notin> set (members mo)" and "0 \<le> wgMO mo"
  shows "\<exists>sm1 sm2. AddExtMember (st, mo) newOutFn = Ret (sm1, None)
           \<and> writeAll sm1 ps = Ret sm2
           \<and> pcapHeader (snd sm2) = pcapHeader mo
           \<and> written (fst sm2) out = written st out @ pcapHeader mo @ concat (map elems ps)"
proof -
  let ?sm1 = "(writeTo st out (pcapHeader mo), mo\<lparr>wgMO := wgMO mo + 1, members := members mo @ [out]\<rparr>)"
  have a: "AddExtMember (st, mo) newOutFn = Ret (?sm1, None)"
    using AddExtMember_replays_header [of newOutFn "(st, mo)" out] assms(2,4) by simp
  have "count_list (members mo) out = 0" using assms(3) by (simp add: count_list_0_iff)
  then have c: "count_list (members (snd ?sm1)) out = 1" by simp
  have h: "pcapHeaderSize \<le> length (pcapHeader (snd ?sm1))" using assms(1) by simp
  from writeAll_header_full [OF h c, of ps] a show ?thesis
    by (auto simp add: writeTo_def)
qed

text \<open>A sink that is a member before the first buffer arrives is given every buffer, and the
  header is the first 24 bytes of the first buffer when that buffer holds as many.\<close>

lemma early_sink_stream:
  assumes "pcapHeader mo = []" and "pcapHeaderSize \<le> len p" and "count_list (members mo) out = 1"
  shows "\<exists>sm'. writeAll (st, mo) (p # ps) = Ret sm'
           \<and> pcapHeader (snd sm') = take pcapHeaderSize (elems p)
           \<and> written (fst sm') out = written st out @ concat (map elems (p # ps))"
proof -
  let ?sm1 = "(forward st (members mo) (elems p), mo\<lparr>pcapHeader := take pcapHeaderSize (elems p)\<rparr>)"
  have w: "Write (st, mo) p = Ret (?sm1, len p, None)"
    using Write_header_capture [of "(st, mo)" p] assms(1,2) by (simp add: pcapHeaderSize_def)
  have h: "pcapHeaderSize \<le> length (pcapHeader (snd ?sm1))"
    using assms(2) by (simp add: len_def)
  have c: "count_list (members (snd ?sm1)) out = 1" using assms(3) by simp
  from writeAll_header_full [OF h c, of ps] w assms(3) show ?thesis
    by (auto simp add: forward_written_once)
qed

subsection \<open>A first buffer shorter than the header\<close>

text \<open>
  Claim C2. While fewer than 24 bytes are captured, \<open>Write(p)\<close> appends to the header the first
  \<open>min(len(p), 24 - captured)\<close> bytes of \<open>p\<close>, also when \<open>p\<close> is shorter than what is missing.
  The code on a first buffer of ten bytes: when the capacity of the buffer is ten as well,
  \<open>Write\<close> panics on the bounds of the slice; when the capacity reaches 24, \<open>Write\<close> appends 24
  bytes, the ten of the buffer and fourteen that lie behind them in its backing array, which is
  not the ten bytes the claim names.
\<close>

theorem Write_short_buffer:
  "Write (noSinks, NewMultiOutput 0 []) \<lparr>elems = shortBuf, spare = []\<rparr> = Panics SliceBoundsOutOfRange
   \<and> Write (noSinks, NewMultiOutput 0 []) \<lparr>elems = shortBuf, spare = staleBytes\<rparr>
       = Ret ((noSinks, (NewMultiOutput 0 [])\<lparr>pcapHeader := shortBuf @ take 14 staleBytes\<rparr>), 10, None)
   \<and> shortBuf @ take 14 staleBytes
       \<noteq> pcapHeader (NewMultiOutput 0 []) @ take (min (length shortBuf) (24 - 0)) shortBuf"
  by (simp add: Write_def NewMultiOutput_def pcapHeaderSize_def sliceTo_def cap_def len_def
      shortBuf_def staleBytes_def)

text \<open>
  Claim C1. Once the header holds 24 bytes, every sink ever added has received the captured
  header as its first 24 bytes, followed by the bytes that arrived after it was registered.
  The code on a capture whose header arrives in two buffers, ten bytes and then the other
  fourteen with two bytes of a record: the sink given to the constructor receives the stream
  as it came, the header is complete after the first buffer and holds ten bytes of the stream
  and fourteen from the backing array, so the first 24 bytes of that sink are not the captured
  header; and a sink attached afterwards is given the captured header, which is not the
  first 24 bytes of the stream.
\<close>

theorem header_not_replayed_after_short_write:
  "\<exists>st mo st' mo'.
       writeAll (noSinks, NewMultiOutput 0 [5])
         [\<lparr>elems = shortBuf, spare = staleBytes\<rparr>, \<lparr>elems = nextBuf, spare = []\<rparr>] = Ret (st, mo)
     \<and> members mo = [5]
     \<and> pcapHeader mo = shortBuf @ take 14 staleBytes
     \<and> length (pcapHeader mo) = 24
     \<and> written st 5 = shortBuf @ nextBuf
     \<and> take 24 (written st 5) = pcapHdr
     \<and> take 24 (written st 5) \<noteq> pcapHeader mo
     \<and> AddExtMember (st, mo) (\<lambda>ch. Some 6) = Ret ((st', mo'), None)
     \<and> members mo' = [5, 6]
     \<and> written st' 6 = shortBuf @ take 14 staleBytes
     \<and> written st' 6 \<noteq> pcapHdr"
  by (simp add: Write_def NewMultiOutput_def pcapHeaderSize_def sliceTo_def cap_def len_def
      shortBuf_def staleBytes_def nextBuf_def pcapHdr_def noSinks_def writeTo_def
      AddExtMember_def wgAdd_def)

subsection \<open>Which sinks the wait group counts\<close>

lemma Write_keeps_control:
  "Write sm p = Ret r \<Longrightarrow>
     wgMO (snd (fst r)) = wgMO (snd sm) \<and> events (snd (fst r)) = events (snd sm)
     \<and> eventsClosed (snd (fst r)) = eventsClosed (snd sm) \<and> members (snd (fst r)) = members (snd sm)"
  by (auto simp add: Write_def Let_def bind_def split: if_splits outcome.splits)

lemma writeAll_keeps_control:
  "writeAll sm ps = Ret sm' \<Longrightarrow>
     wgMO (snd sm') = wgMO (snd sm) \<and> events (snd sm') = events (snd sm)
     \<and> eventsClosed (snd sm') = eventsClosed (snd sm) \<and> members (snd sm') = members (snd sm)"
proof (induction ps arbitrary: sm)
  case Nil
  then show ?case by simp
next
  case (Cons p ps)
  then obtain r where r: "Write sm p = Ret r" "writeAll (fst r) ps = Ret sm'"
    by (cases "Write sm p") simp_all
  from Cons.IH [OF r(2)] Write_keeps_control [OF r(1)] show ?case by simp
qed

lemma moHandleEvent_counter:
  "moHandleEvent lm e = Ret lm' \<Longrightarrow> wgMO (snd lm') \<le> wgMO (snd lm)"
  by (auto simp add: moHandleEvent_def wgDone_def wgAdd_def split: option.splits if_splits)

lemma removeFirst_append:
  "x \<notin> set xs \<Longrightarrow>
   removeFirst x (xs @ ys) = (case removeFirst x ys of None \<Rightarrow> None | Some zs \<Rightarrow> Some (xs @ zs))"
  by (induction xs) (auto split: option.splits)

lemma removeFirst_length: "removeFirst x ys = Some zs \<Longrightarrow> Suc (length zs) = length ys"
  by (induction ys arbitrary: zs) (auto split: if_splits)

text \<open>
  The members are the outputers of the constructor followed by the sinks that \<open>AddExtMember\<close>
  has added and the handler has not removed, and the counter is the number of the latter.
  One call or event keeps it so, as long as no event names an outputer of the constructor.
\<close>

lemma step_keeps_ext:
  assumes "step (lg, st, mo) c = Ret (lg', st', mo')"
      and "members mo = outputers @ ext" and "wgMO mo = int (length ext)"
      and "set (eventSources [c]) \<inter> set outputers = {}"
  shows "\<exists>ext'. members mo' = outputers @ ext' \<and> wgMO mo' = int (length ext')
           \<and> length ext' \<le> length ext + addCalls [c]
           \<and> events mo' = events mo \<and> eventsClosed mo' = eventsClosed mo"
proof (cases c)
  case (CallWrite p)
  with assms(1) obtain r where r: "Write (st, mo) p = Ret r" "fst r = (st', mo')"
    by (cases "Write (st, mo) p") auto
  from Write_keeps_control [OF r(1)] r(2) assms(2,3) CallWrite show ?thesis by simp
next
  case (CallAddExtMember newOutFn)
  show ?thesis
  proof (cases "newOutFn (events mo)")
    case None
    with assms CallAddExtMember show ?thesis by (simp add: AddExtMember_def)
  next
    case (Some out)
    with assms CallAddExtMember show ?thesis
      by (auto simp add: AddExtMember_def wgAdd_def Let_def split: if_splits)
  qed
next
  case (Event e)
  with assms(4) have notin: "moFrom e \<notin> set outputers" by simp
  show ?thesis
  proof (cases "removeFirst (moFrom e) ext")
    case None
    then have "removeFirst (moFrom e) (members mo) = None"
      using assms(2) notin by (simp add: removeFirst_append)
    with assms Event show ?thesis by (simp add: moHandleEvent_def)
  next
    case (Some ext')
    then have rf: "removeFirst (moFrom e) (members mo) = Some (outputers @ ext')"
      using assms(2) notin by (simp add: removeFirst_append)
    have l: "Suc (length ext') = length ext" using Some by (rule removeFirst_length)
    then have "int (length ext) = int (length ext') + 1" by linarith
    with assms(1,3) Event rf l show ?thesis
      by (auto simp add: moHandleEvent_def wgDone_def wgAdd_def split: if_splits)
  qed
qed

lemma run_keeps_ext:
  assumes "run s calls = Ret s'"
      and "members (snd (snd s)) = outputers @ ext" and "wgMO (snd (snd s)) = int (length ext)"
      and "set (eventSources calls) \<inter> set outputers = {}"
  shows "\<exists>ext'. members (snd (snd s')) = outputers @ ext' \<and> wgMO (snd (snd s')) = int (length ext')
           \<and> length ext' \<le> length ext + addCalls calls
           \<and> events (snd (snd s')) = events (snd (snd s))
           \<and> eventsClosed (snd (snd s')) = eventsClosed (snd (snd s))"
  using assms
proof (induction calls arbitrary: s ext)
  case Nil
  then show ?case by auto
next
  case (Cons c cs)
  from Cons.prems(1) obtain s1 where s1: "step s c = Ret s1" "run s1 cs = Ret s'"
    by (cases "step s c") simp_all
  obtain lg st mo where s: "s = (lg, st, mo)" by (cases s) auto
  obtain lg1 st1 mo1 where s1': "s1 = (lg1, st1, mo1)" by (cases s1) auto
  have src: "set (eventSources [c]) \<inter> set outputers = {}" "set (eventSources cs) \<inter> set outputers = {}"
    using Cons.prems(4) by (cases c; auto)+
  have ac: "addCalls (c # cs) = addCalls [c] + addCalls cs" by (cases c) simp_all
  from step_keeps_ext [OF s1(1) [unfolded s s1'], of outputers ext] Cons.prems(2,3) src(1) s
  obtain ext1 where e1: "members mo1 = outputers @ ext1" "wgMO mo1 = int (length ext1)"
    "length ext1 \<le> length ext + addCalls [c]" "events mo1 = events mo" "eventsClosed mo1 = eventsClosed mo"
    by auto
  from Cons.IH [OF s1(2), of ext1] e1 s1' src(2)
  obtain ext' where e': "members (snd (snd s')) = outputers @ ext'" "wgMO (snd (snd s')) = int (length ext')"
    "length ext' \<le> length ext1 + addCalls cs" "events (snd (snd s')) = events mo1"
    "eventsClosed (snd (snd s')) = eventsClosed mo1"
    by auto
  from e1 e' ac s show ?case by auto
qed

text \<open>
  Claim C8. The constructor leaves the counter of the wait group at 0 whatever outputers it is
  given. After any run of \<open>Write\<close> calls, \<open>AddExtMember\<close> calls and handled events that returns,
  in which no event names an outputer of the constructor, the members are the outputers of the
  constructor followed by some sinks \<open>ext\<close> that \<open>AddExtMember\<close> has added, no more of them
  than there were \<open>AddExtMember\<close> calls, and the counter is the number of these sinks: the
  outputers of the constructor are not counted. \<open>Close\<close> then closes the members and returns
  when \<open>ext\<close> is empty, though the outputers of the constructor are members still and have
  sent no event, and waits when it is not.
\<close>

theorem wait_group_counts_ext_members_only:
  assumes "run (lg, st, NewMultiOutput ch outputers) calls = Ret (lg', st', mo')"
      and "set (eventSources calls) \<inter> set outputers = {}"
  shows "wgMO (NewMultiOutput ch outputers) = 0
     \<and> (\<exists>ext. members mo' = outputers @ ext
            \<and> wgMO mo' = int (length ext)
            \<and> length ext \<le> addCalls calls
            \<and> Close (st', mo')
                = (if ext = [] then Ret (closeEach st' outputers, mo'\<lparr>eventsClosed := True\<rparr>) else Blocks))"
proof -
  from run_keeps_ext [OF assms(1), of outputers "[]"] assms(2)
  obtain ext where e: "members mo' = outputers @ ext" "wgMO mo' = int (length ext)"
    "length ext \<le> addCalls calls" "eventsClosed mo' = False"
    by (auto simp add: NewMultiOutput_def)
  then show ?thesis
    by (auto simp add: NewMultiOutput_def Close_def Let_def)
qed

theorem wait_group_counts_ext_members_only_witness:
  "run (lgOff, noSinks, NewMultiOutput 0 [5])
       [CallWrite \<lparr>elems = pcapHdr, spare = []\<rparr>, CallAddExtMember (\<lambda>ch. Some 6),
        Event \<lparr>moFrom = 6, moEvent = OutputerDead\<rparr>]
     = Ret (lgOff, noSinks\<lparr>written := (written noSinks)(5 := pcapHdr, 6 := pcapHdr)\<rparr>,
            (NewMultiOutput 0 [5])\<lparr>pcapHeader := pcapHdr\<rparr>)
   \<and> set (eventSources [CallWrite \<lparr>elems = pcapHdr, spare = []\<rparr>, CallAddExtMember (\<lambda>ch. Some 6),
                         Event \<lparr>moFrom = 6, moEvent = OutputerDead\<rparr>]) \<inter> set [5] = {}
   \<and> members ((NewMultiOutput 0 [5])\<lparr>pcapHeader := pcapHdr\<rparr>) = [5]
   \<and> wgMO ((NewMultiOutput 0 [5])\<lparr>pcapHeader := pcapHdr\<rparr>) = 0
   \<and> Close (noSinks\<lparr>written := (written noSinks)(5 := pcapHdr, 6 := pcapHdr)\<rparr>,
            (NewMultiOutput 0 [5])\<lparr>pcapHeader := pcapHdr\<rparr>)
       = Ret (closeEach (noSinks\<lparr>written := (written noSinks)(5 := pcapHdr, 6 := pcapHdr)\<rparr>) [5],
              (NewMultiOutput 0 [5])\<lparr>pcapHeader := pcapHdr, eventsClosed := True\<rparr>)"
proof -
  have r: "run (lgOff, noSinks, NewMultiOutput 0 [5])
       [CallWrite \<lparr>elems = pcapHdr, spare = []\<rparr>, CallAddExtMember (\<lambda>ch. Some 6),
        Event \<lparr>moFrom = 6, moEvent = OutputerDead\<rparr>]
     = Ret (lgOff, noSinks\<lparr>written := (written noSinks)(5 := pcapHdr, 6 := pcapHdr)\<rparr>,
            (NewMultiOutput 0 [5])\<lparr>pcapHeader := pcapHdr\<rparr>)"
    by (simp add: Write_def NewMultiOutput_def pcapHeaderSize_def sliceTo_def cap_def len_def
        pcapHdr_def noSinks_def writeTo_def AddExtMember_def wgAdd_def wgDone_def moHandleEvent_def
        lgOff_def Info_def)
  have d: "set (eventSources [CallWrite \<lparr>elems = pcapHdr, spare = []\<rparr>, CallAddExtMember (\<lambda>ch. Some 6),
                         Event \<lparr>moFrom = 6, moEvent = OutputerDead\<rparr>]) \<inter> set [5] = {}"
    by simp
  have m: "members ((NewMultiOutput 0 [5])\<lparr>pcapHeader := pcapHdr\<rparr>) = [5]"
    by (simp add: NewMultiOutput_def)
  from wait_group_counts_ext_members_only [OF r d] m
  have c: "wgMO ((NewMultiOutput 0 [5])\<lparr>pcapHeader := pcapHdr\<rparr>) = 0
     \<and> Close (noSinks\<lparr>written := (written noSinks)(5 := pcapHdr, 6 := pcapHdr)\<rparr>,
            (NewMultiOutput 0 [5])\<lparr>pcapHeader := pcapHdr\<rparr>)
       = Ret (closeEach (noSinks\<lparr>written := (written noSinks)(5 := pcapHdr, 6 := pcapHdr)\<rparr>) [5],
              (NewMultiOutput 0 [5])\<lparr>pcapHeader := pcapHdr, eventsClosed := True\<rparr>)"
    by auto
  show ?thesis using r d m c by blast
qed

section \<open>Properties of the configuration\<close>

subsection \<open>Validation of one target\<close>

lemma reject_Name: "Name t = None \<Longrightarrow> isl (snd (getClientConfig pk fs (lg, t)))"
  by (simp add: getClientConfig_def)

lemma reject_User: "User t = None \<Longrightarrow> isl (snd (getClientConfig pk fs (lg, t)))"
  by (simp add: getClientConfig_def split: option.splits)

lemma reject_Key: "Key t = None \<Longrightarrow> isl (snd (getClientConfig pk fs (lg, t)))"
  by (simp add: getClientConfig_def split: option.splits)

lemma reject_Host: "Host t = None \<Longrightarrow> isl (snd (getClientConfig pk fs (lg, t)))"
  by (simp add: getClientConfig_def split: option.splits)

lemma reject_Destination: "Destination t = None \<Longrightarrow> isl (snd (getClientConfig pk fs (lg, t)))"
  by (simp add: getClientConfig_def Let_def split: option.splits)

lemma reject_FilePattern: "FilePattern t = None \<Longrightarrow> isl (snd (getClientConfig pk fs (lg, t)))"
  by (simp add: getClientConfig_def Let_def split: option.splits)

lemma reject_RotationCnt:
  "RotationCnt t = Some r \<Longrightarrow> r < 0 \<Longrightarrow> isl (snd (getClientConfig pk fs (lg, t)))"
  by (simp add: getClientConfig_def Let_def split: option.splits)

lemma reject_FilterPort_low:
  "FilterPort t = Some p \<Longrightarrow> p < 1 \<Longrightarrow> isl (snd (getClientConfig pk fs (lg, t)))"
  by (simp add: getClientConfig_def Let_def split: option.splits sum.splits)

lemma reject_FilterPort_high:
  "FilterPort t = Some p \<Longrightarrow> 65535 < p \<Longrightarrow> isl (snd (getClientConfig pk fs (lg, t)))"
  by (simp add: getClientConfig_def Let_def split: option.splits sum.splits)

text \<open>A target that passes every check: the target it is left as, and the values returned,
  which depend on the key file alone.\<close>

lemma getClientConfig_valid:
  assumes "Name t = Some name" "User t = Some user" "Key t = Some key" "Host t = Some host"
    "Destination t = Some d" "FilePattern t = Some fp"
    "\<forall>r. RotationCnt t = Some r \<longrightarrow> 0 \<le> r"
    "\<forall>p. FilterPort t = Some p \<longrightarrow> 1 \<le> p \<and> p \<le> 65535"
  shows "snd (fst (getClientConfig pk fs (lg, t)))
           = t\<lparr>Port := Some (case Port t of None \<Rightarrow> 22 | Some p \<Rightarrow> p),
               RotationCnt := Some (case RotationCnt t of None \<Rightarrow> 10 | Some r \<Rightarrow> r),
               UseSudo := Some (case UseSudo t of None \<Rightarrow> False | Some b \<Rightarrow> b)\<rparr>
       \<and> snd (getClientConfig pk fs (lg, t))
           = (case ReadFile fs key of
                Inl err \<Rightarrow> Inl (''unable to read private key: '' @ err)
              | Inr content \<Rightarrow>
                  (case pk content of
                     Inl err \<Rightarrow> Inl (''unable to parse private key: '' @ err)
                   | Inr signer \<Rightarrow>
                       Inr (\<lparr>ccUser = user, ccAuth = [PublicKeys signer],
                             ccHostKeyCallback = InsecureIgnoreHostKey\<rparr>,
                            host @ '':'' @ showInt (case Port t of None \<Rightarrow> 22 | Some p \<Rightarrow> p))))"
proof (cases "Port t"; cases "RotationCnt t"; cases "UseSudo t"; cases "FilterPort t")
qed (use assms in \<open>simp_all add: getClientConfig_def Let_def split: sum.splits\<close>)

text \<open>
  \<open>getClientConfig\<close> on its own returns an error for a target that lacks its name, user, key,
  host, destination or file pattern, for one whose rotation count is negative, and for one
  whose filter port is below 1 or above 65535. For any other target it leaves the port at 22,
  the rotation count at 10 and the sudo flag at false where the document gave none, keeps the
  values the document gave, and changes no other field; what it returns then depends on the
  key file alone: an error when the file cannot be read or parsed, and otherwise the client
  configuration and the destination "host:port".
\<close>

lemma getClientConfig_validation:
  "(Name t = None \<or> User t = None \<or> Key t = None \<or> Host t = None
      \<or> Destination t = None \<or> FilePattern t = None
      \<or> (\<exists>r. RotationCnt t = Some r \<and> r < 0)
      \<or> (\<exists>p. FilterPort t = Some p \<and> (p < 1 \<or> 65535 < p))
    \<longrightarrow> isl (snd (getClientConfig pk fs (lg, t))))
   \<and> (Name t = Some name \<and> User t = Some user \<and> Key t = Some key \<and> Host t = Some host
      \<and> Destination t = Some d \<and> FilePattern t = Some fp
      \<and> (\<forall>r. RotationCnt t = Some r \<longrightarrow> 0 \<le> r)
      \<and> (\<forall>p. FilterPort t = Some p \<longrightarrow> 1 \<le> p \<and> p \<le> 65535)
    \<longrightarrow> snd (fst (getClientConfig pk fs (lg, t)))
           = t\<lparr>Port := Some (case Port t of None \<Rightarrow> 22 | Some p \<Rightarrow> p),
               RotationCnt := Some (case RotationCnt t of None \<Rightarrow> 10 | Some r \<Rightarrow> r),
               UseSudo := Some (case UseSudo t of None \<Rightarrow> False | Some b \<Rightarrow> b)\<rparr>
        \<and> snd (getClientConfig pk fs (lg, t))
           = (case ReadFile fs key of
                Inl err \<Rightarrow> Inl (''unable to read private key: '' @ err)
              | Inr content \<Rightarrow>
                  (case pk content of
                     Inl err \<Rightarrow> Inl (''unable to parse private key: '' @ err)
                   | Inr signer \<Rightarrow>
                       Inr (\<lparr>ccUser = user, ccAuth = [PublicKeys signer],
                             ccHostKeyCallback = InsecureIgnoreHostKey\<rparr>,
                            host @ '':'' @ showInt (case Port t of None \<Rightarrow> 22 | Some p \<Rightarrow> p)))))"
proof (intro conjI impI)
  assume "Name t = None \<or> User t = None \<or> Key t = None \<or> Host t = None
      \<or> Destination t = None \<or> FilePattern t = None
      \<or> (\<exists>r. RotationCnt t = Some r \<and> r < 0)
      \<or> (\<exists>p. FilterPort t = Some p \<and> (p < 1 \<or> 65535 < p))"
  then show "isl (snd (getClientConfig pk fs (lg, t)))"
    using reject_Name reject_User reject_Key reject_Host reject_Destination reject_FilePattern
      reject_RotationCnt reject_FilterPort_low reject_FilterPort_high
    by metis
next
  assume a: "Name t = Some name \<and> User t = Some user \<and> Key t = Some key \<and> Host t = Some host
      \<and> Destination t = Some d \<and> FilePattern t = Some fp
      \<and> (\<forall>r. RotationCnt t = Some r \<longrightarrow> 0 \<le> r)
      \<and> (\<forall>p. FilterPort t = Some p \<longrightarrow> 1 \<le> p \<and> p \<le> 65535)"
  then show "snd (fst (getClientConfig pk fs (lg, t)))
           = t\<lparr>Port := Some (case Port t of None \<Rightarrow> 22 | Some p \<Rightarrow> p),
               RotationCnt := Some (case RotationCnt t of None \<Rightarrow> 10 | Some r \<Rightarrow> r),
               UseSudo := Some (case UseSudo t of None \<Rightarrow> False | Some b \<Rightarrow> b)\<rparr>"
    using getClientConfig_valid [of t name user key host d fp pk fs lg] by blast
next
  assume a: "Name t = Some name \<and> User t = Some user \<and> Key t = Some key \<and> Host t = Some host
      \<and> Destination t = Some d \<and> FilePattern t = Some fp
      \<and> (\<forall>r. RotationCnt t = Some r \<longrightarrow> 0 \<le> r)
      \<and> (\<forall>p. FilterPort t = Some p \<longrightarrow> 1 \<le> p \<and> p \<le> 65535)"
  then show "snd (getClientConfig pk fs (lg, t))
           = (case ReadFile fs key of
                Inl err \<Rightarrow> Inl (''unable to read private key: '' @ err)
              | Inr content \<Rightarrow>
                  (case pk content of
                     Inl err \<Rightarrow> Inl (''unable to parse private key: '' @ err)
                   | Inr signer \<Rightarrow>
                       Inr (\<lparr>ccUser = user, ccAuth = [PublicKeys signer],
                             ccHostKeyCallback = InsecureIgnoreHostKey\<rparr>,
                            host @ '':'' @ showInt (case Port t of None \<Rightarrow> 22 | Some p \<Rightarrow> p))))"
    using getClientConfig_valid [of t name user key host d fp pk fs lg] by blast
qed

lemma getClientConfig_validation_example:
  "Name (minimalTarget\<lparr>Name := None\<rparr>) = None
   \<and> isl (snd (getClientConfig anyKey keyFs (lgOff, minimalTarget\<lparr>Name := None\<rparr>)))
   \<and> RotationCnt (minimalTarget\<lparr>RotationCnt := Some (- 1)\<rparr>) = Some (- 1) \<and> (- 1 :: int) < 0
   \<and> isl (snd (getClientConfig anyKey keyFs (lgOff, minimalTarget\<lparr>RotationCnt := Some (- 1)\<rparr>)))
   \<and> FilterPort (minimalTarget\<lparr>FilterPort := Some 65536\<rparr>) = Some 65536 \<and> (65535 :: int) < 65536
   \<and> isl (snd (getClientConfig anyKey keyFs (lgOff, minimalTarget\<lparr>FilterPort := Some 65536\<rparr>)))
   \<and> Name minimalTarget = Some ''alpha'' \<and> User minimalTarget = Some ''root''
   \<and> Key minimalTarget = Some ''/keys/id_rsa'' \<and> Host minimalTarget = Some ''10.0.0.1''
   \<and> Destination minimalTarget = Some ''/tmp/x'' \<and> FilePattern minimalTarget = Some ''cap_''
   \<and> RotationCnt minimalTarget = None \<and> FilterPort minimalTarget = None
   \<and> snd (fst (getClientConfig anyKey keyFs (lgOff, minimalTarget)))
       = minimalTarget\<lparr>Port := Some 22, RotationCnt := Some 10, UseSudo := Some False\<rparr>
   \<and> snd (getClientConfig anyKey keyFs (lgOff, minimalTarget))
       = Inr (\<lparr>ccUser = ''root'', ccAuth = [PublicKeys 1], ccHostKeyCallback = InsecureIgnoreHostKey\<rparr>,
              ''10.0.0.1:22'')"
proof -
  have s: "showInt 22 = ''22''"
    by (simp add: showInt_def showNat.simps)
  show ?thesis
    using getClientConfig_validation [where t = "minimalTarget\<lparr>Name := None\<rparr>"
        and pk = anyKey and fs = keyFs and lg = lgOff]
      getClientConfig_validation [where t = "minimalTarget\<lparr>RotationCnt := Some (- 1)\<rparr>"
        and pk = anyKey and fs = keyFs and lg = lgOff]
      getClientConfig_validation [where t = "minimalTarget\<lparr>FilterPort := Some 65536\<rparr>"
        and pk = anyKey and fs = keyFs and lg = lgOff]
      getClientConfig_validation [where t = minimalTarget and name = "''alpha''" and user = "''root''"
        and key = "''/keys/id_rsa''" and host = "''10.0.0.1''" and d = "''/tmp/x''" and fp = "''cap_''"
        and pk = anyKey and fs = keyFs and lg = lgOff]
    by (simp add: minimalTarget_def keyFs_def anyKey_def ReadFile_def s)
qed

subsection \<open>A target without a name\<close>

text \<open>
  Claim C6. The loader rejects a parsed target with an error when its name, user, key, host,
  destination or file pattern is missing, gives the port, the rotation count and the sudo flag
  the defaults 22, 10 and false, and rejects a negative rotation count and a filter port
  outside 1..65535. The code on a document whose one target gives every mandatory field but
  the name: \<open>getClientConfig\<close> would answer "Missing Name in configuration", but the target
  does not reach it, for \<open>checkForDuplicates\<close> reads the name through the nil pointer, and
  \<open>parseConfig\<close> and \<open>readConfigFromFile\<close> panic where the claim has them return an error.
\<close>

theorem nameless_target_panics:
  "Name namelessTarget = None
   \<and> snd (getClientConfig anyKey keyFs (lgOff, namelessTarget)) = Inl ''Missing Name in configuration''
   \<and> namelessUnmarshal ''targets: [{host: 10.0.0.1}]'' = (\<lparr>Targets = [namelessTarget]\<rparr>, None)
   \<and> checkForDuplicates \<lparr>Targets = [namelessTarget]\<rparr> = Panics NilDereference
   \<and> parseConfig namelessUnmarshal ''targets: [{host: 10.0.0.1}]'' = Panics NilDereference
   \<and> readConfigFromFile namelessUnmarshal
         (emptyFs\<lparr>files := [''tranqap.yml'' \<mapsto> ''targets: [{host: 10.0.0.1}]'']\<rparr>) ''tranqap.yml''
       = Panics NilDereference"
  by (simp add: namelessTarget_def minimalTarget_def namelessUnmarshal_def getClientConfig_def
      checkForDuplicates_def parseConfig_def readConfigFromFile_def ReadFile_def emptyFs_def)

subsection \<open>Parsing a document\<close>

text \<open>
  Claim C10. When the targets list that \<open>yaml.Unmarshal\<close> has filled in is empty,
  \<open>parseConfig\<close> returns an error: the error of \<open>Unmarshal\<close> when there is one, and
  "No targets defined in config" otherwise. \<open>readConfigFromFile\<close> on a file with such a
  document returns an error too.
\<close>

theorem parseConfig_no_targets:
  assumes "Targets (fst (Unmarshal confFile)) = []"
  shows "\<exists>err. parseConfig Unmarshal confFile = Ret (fst (Unmarshal confFile), Some err)
           \<and> (snd (Unmarshal confFile) = None \<longrightarrow> err = ''No targets defined in config'')
           \<and> (files fs fname = Some confFile \<longrightarrow>
                (\<exists>err'. readConfigFromFile Unmarshal fs fname = Ret (\<lparr>Targets = []\<rparr>, Some err')))"
  using assms
  by (cases "snd (Unmarshal confFile)"; cases "statError fs fname")
    (simp_all add: parseConfig_def readConfigFromFile_def ReadFile_def Let_def)

theorem parseConfig_no_targets_witness:
  "Targets (fst (exampleUnmarshal ''targets: []'')) = []
   \<and> snd (exampleUnmarshal ''targets: []'') = None
   \<and> files (emptyFs\<lparr>files := [''tranqap.yml'' \<mapsto> ''targets: []'']\<rparr>) ''tranqap.yml'' = Some ''targets: []''
   \<and> parseConfig exampleUnmarshal ''targets: []'' = Ret (\<lparr>Targets = []\<rparr>, Some ''No targets defined in config'')
   \<and> (\<exists>err'. readConfigFromFile exampleUnmarshal (emptyFs\<lparr>files := [''tranqap.yml'' \<mapsto> ''targets: []'']\<rparr>)
                ''tranqap.yml'' = Ret (\<lparr>Targets = []\<rparr>, Some err'))"
  using parseConfig_no_targets [of exampleUnmarshal "''targets: []''"
      "emptyFs\<lparr>files := [''tranqap.yml'' \<mapsto> ''targets: []'']\<rparr>" "''tranqap.yml''"]
  by (simp add: exampleUnmarshal_def emptyFs_def)

text \<open>
  Claim C7. Given that \<open>yaml.Unmarshal\<close> reads the document \<open>yaml.Marshal\<close> makes of the sample
  back as the sample, a run of \<open>generateSampleConfig\<close> that succeeds leaves under the path a
  file that \<open>parseConfig\<close> and \<open>readConfigFromFile\<close> accept without error: the document parses,
  its targets list has one entry, that entry has a name, and no name occurs twice.
\<close>

theorem sample_config_validates:
  assumes "Unmarshal (fst (Marshal [(''targets'', [sampleTarget])])) = (\<lparr>Targets = [sampleTarget]\<rparr>, None)"
      and "generateSampleConfig Marshal fs path = (None, fs')"
  shows "parseConfig Unmarshal (fst (Marshal [(''targets'', [sampleTarget])]))
           = Ret (\<lparr>Targets = [sampleTarget]\<rparr>, None)
       \<and> files fs' path = Some (fst (Marshal [(''targets'', [sampleTarget])]))
       \<and> readConfigFromFile Unmarshal fs' path = Ret (\<lparr>Targets = [sampleTarget]\<rparr>, None)"
proof -
  let ?doc = "fst (Marshal [(''targets'', [sampleTarget])])"
  have p: "parseConfig Unmarshal ?doc = Ret (\<lparr>Targets = [sampleTarget]\<rparr>, None)"
    using assms(1) by (simp add: parseConfig_def checkForDuplicates_def sampleTarget_def)
  have f: "files fs' path = Some ?doc \<and> statError fs' path = None"
    using assms(2)
    by (auto simp add: generateSampleConfig_def WriteFile_def Stat_def IsNotExist_def Let_def
        split: if_splits option.splits)
  show ?thesis using p f by (simp add: readConfigFromFile_def ReadFile_def)
qed

theorem sample_config_validates_witness:
  "exampleUnmarshal (fst (exampleMarshal [(''targets'', [sampleTarget])])) = (\<lparr>Targets = [sampleTarget]\<rparr>, None)
   \<and> generateSampleConfig exampleMarshal emptyFs ''tranqap.yml''
       = (None, emptyFs\<lparr>files := [''tranqap.yml'' \<mapsto> ''targets: [sample]'']\<rparr>)
   \<and> readConfigFromFile exampleUnmarshal (emptyFs\<lparr>files := [''tranqap.yml'' \<mapsto> ''targets: [sample]'']\<rparr>)
        ''tranqap.yml'' = Ret (\<lparr>Targets = [sampleTarget]\<rparr>, None)"
proof -
  have r: "exampleUnmarshal (fst (exampleMarshal [(''targets'', [sampleTarget])]))
             = (\<lparr>Targets = [sampleTarget]\<rparr>, None)"
    by (simp add: exampleUnmarshal_def exampleMarshal_def)
  have g: "generateSampleConfig exampleMarshal emptyFs ''tranqap.yml''
             = (None, emptyFs\<lparr>files := [''tranqap.yml'' \<mapsto> ''targets: [sample]'']\<rparr>)"
    by (simp add: generateSampleConfig_def exampleMarshal_def emptyFs_def WriteFile_def Stat_def
        IsNotExist_def)
  have c: "readConfigFromFile exampleUnmarshal (emptyFs\<lparr>files := [''tranqap.yml'' \<mapsto> ''targets: [sample]'']\<rparr>)
        ''tranqap.yml'' = Ret (\<lparr>Targets = [sampleTarget]\<rparr>, None)"
    using r g sample_config_validates [where Unmarshal = exampleUnmarshal and Marshal = exampleMarshal
        and fs = emptyFs and path = "''tranqap.yml''"
        and fs' = "emptyFs\<lparr>files := [''tranqap.yml'' \<mapsto> ''targets: [sample]'']\<rparr>"]
    by blast
  show ?thesis
    using r g c by blast
qed

end
